theory Spec2Isabelle
  imports Complex_Main
begin

section \<open>Role based access and session redirect control of the booking front end\<close>

text \<open>
  The development embeds the route guards of \<^verbatim>\<open>App.js\<close>, the session store of
  \<^verbatim>\<open>AuthContext.js\<close> and the HTTP client wrapper of \<^verbatim>\<open>lib/api.js\<close>.
  JavaScript values are modelled by the types the code really inspects: a role is a
  string or \<^verbatim>\<open>undefined\<close> (\<open>string option\<close>), a nullable object is an \<open>option\<close>,
  a thrown \<^verbatim>\<open>TypeError\<close> is the left injection of a sum.
\<close>

subsection \<open>Property reads on object literals\<close>

text \<open>
  \<^verbatim>\<open>redirectMap[k]\<close> and \<^verbatim>\<open>permissions[k]\<close> read a property of an object literal.
  The key is converted to a string first (\<^verbatim>\<open>undefined\<close> becomes the key
  \<^verbatim>\<open>"undefined"\<close>), the own properties are searched, and then the prototype of every
  object literal, \<^verbatim>\<open>Object.prototype\<close>, whose members are listed here.
\<close>

definition to_key :: "string option \<Rightarrow> string" where
  "to_key r = (case r of None \<Rightarrow> ''undefined'' | Some s \<Rightarrow> s)"

definition object_prototype_names :: "string list" where
  "object_prototype_names =
     [''constructor'', ''__proto__'', ''hasOwnProperty'', ''isPrototypeOf'',
      ''propertyIsEnumerable'', ''toLocaleString'', ''toString'', ''valueOf'',
      ''__defineGetter__'', ''__defineSetter__'', ''__lookupGetter__'', ''__lookupSetter__'']"

datatype 'a lookup = Own 'a | Inherited string | Missing

definition get_prop :: "(string \<times> 'a) list \<Rightarrow> string \<Rightarrow> 'a lookup" where
  "get_prop obj k =
     (case map_of obj k of
        Some v \<Rightarrow> Own v
      | None \<Rightarrow> if k \<in> set object_prototype_names then Inherited k else Missing)"

subsection \<open>The role to home route map\<close>

text \<open>
  \<^verbatim>\<open>redirectMap\<close> is written out twice, once in \<^verbatim>\<open>ProtectedRoute\<close> and once in
  \<^verbatim>\<open>PublicRoute\<close>. A redirect target is the value handed to \<^verbatim>\<open><Navigate to=...>\<close>:
  a path, or the built-in member of \<^verbatim>\<open>Object.prototype\<close> found under the role's name
  (a function, or the prototype itself; truthy, so the fallback is not taken).
\<close>

definition redirectMap_ProtectedRoute :: "(string \<times> string) list" where
  "redirectMap_ProtectedRoute =
     [(''super_admin'', ''/admin''), (''admin'', ''/admin''), (''business'', ''/business''),
      (''staff'', ''/staff''), (''client'', ''/client'')]"

definition redirectMap_PublicRoute :: "(string \<times> string) list" where
  "redirectMap_PublicRoute =
     [(''super_admin'', ''/admin''), (''admin'', ''/admin''), (''business'', ''/business''),
      (''staff'', ''/staff''), (''client'', ''/client'')]"

datatype target = Path string | Builtin string

text \<open>The expression \<^verbatim>\<open>redirectMap[user?.role] || '/'\<close>.\<close>

definition redirect_to :: "(string \<times> string) list \<Rightarrow> string option \<Rightarrow> target" where
  "redirect_to redirectMap r =
     (case get_prop redirectMap (to_key r) of
        Own p \<Rightarrow> if p = [] then Path ''/'' else Path p
      | Inherited k \<Rightarrow> Builtin k
      | Missing \<Rightarrow> Path ''/'')"

text \<open>
  The mapping as the specification words it (\<open>homeRouteFor\<close>): super_admin and admin go
  to \<^verbatim>\<open>/admin\<close>, business to \<^verbatim>\<open>/business\<close>, staff to \<^verbatim>\<open>/staff\<close>, client to
  \<^verbatim>\<open>/client\<close>, an unknown or absent role to \<^verbatim>\<open>/\<close>.
\<close>

definition homeRouteFor :: "string option \<Rightarrow> string" where
  "homeRouteFor r =
     (if r = Some ''super_admin'' \<or> r = Some ''admin'' then ''/admin''
      else if r = Some ''business'' then ''/business''
      else if r = Some ''staff'' then ''/staff''
      else if r = Some ''client'' then ''/client''
      else ''/'')"

definition all_roles :: "string list" where
  "all_roles = [''super_admin'', ''admin'', ''business'', ''staff'', ''client'']"

subsection \<open>The session store and its environment\<close>

record identity =
  uid :: string
  role :: "string option"

text \<open>
  Side effects that leave the component are recorded in a trace, in the order in which
  the code performs them.
\<close>

datatype effect =
    RemoveItem
  | SetItem string
  | SetHref string
  | Request string string

text \<open>
  \<open>user\<close>, \<open>token\<close> and \<open>loading\<close> are the three \<^verbatim>\<open>useState\<close> cells of
  \<^verbatim>\<open>AuthProvider\<close>; \<open>storage\<close> is \<^verbatim>\<open>localStorage.getItem('token')\<close>; \<open>pathname\<close> is
  \<^verbatim>\<open>window.location.pathname\<close> of the current document.
\<close>

record session =
  user :: "identity option"
  token :: "string option"
  loading :: bool
  storage :: "string option"
  pathname :: string
  trace :: "effect list"

text \<open>\<^verbatim>\<open>isAuthenticated: !!user\<close>\<close>

definition isAuthenticated :: "session \<Rightarrow> bool" where
  "isAuthenticated s = (user s \<noteq> None)"

text \<open>\<^verbatim>\<open>user?.role\<close>\<close>

definition user_role :: "identity option \<Rightarrow> string option" where
  "user_role u = (case u of None \<Rightarrow> None | Some i \<Rightarrow> role i)"

text \<open>\<^verbatim>\<open>roles.includes(v)\<close> on an array of strings.\<close>

definition array_includes :: "string list \<Rightarrow> string option \<Rightarrow> bool" where
  "array_includes rs v = (case v of None \<Rightarrow> False | Some r \<Rightarrow> r \<in> set rs)"

subsection \<open>Route guards\<close>

datatype 'c element = Spinner | Navigate target bool | Children 'c

definition ProtectedRoute :: "session \<Rightarrow> 'c \<Rightarrow> string list option \<Rightarrow> 'c element" where
  "ProtectedRoute s children allowedRoles =
     (if loading s then Spinner
      else if \<not> isAuthenticated s then Navigate (Path ''/login'') True
      else if (case allowedRoles of None \<Rightarrow> False
               | Some rs \<Rightarrow> \<not> array_includes rs (user_role (user s)))
        then Navigate (redirect_to redirectMap_ProtectedRoute (user_role (user s))) True
      else Children children)"

definition PublicRoute :: "session \<Rightarrow> 'c \<Rightarrow> 'c element" where
  "PublicRoute s children =
     (if loading s then Spinner
      else if isAuthenticated s
        then Navigate (redirect_to redirectMap_PublicRoute (user_role (user s))) True
      else Children children)"

text \<open>
  The protected route groups of \<^verbatim>\<open>AppRoutes\<close>: parent path, the \<^verbatim>\<open>allowedRoles\<close> of the
  guard wrapped around the parent element, and the child paths (the empty string is the
  index route). The guard of the parent runs for every child.
\<close>

definition AppRoutes :: "(string \<times> string list \<times> string list) list" where
  "AppRoutes =
     [(''/admin'', [''super_admin'', ''admin''],
         ['''', ''businesses'', ''users'', ''services'', ''staff'', ''appointments'',
          ''clients'', ''finance'', ''platform-finance'', ''reports'', ''settings'']),
      (''/business'', [''business''],
         ['''', ''services'', ''staff'', ''appointments'', ''clients'', ''finance'',
          ''reports'', ''settings'']),
      (''/staff'', [''staff''], ['''', ''calendar'', ''settings'']),
      (''/client'', [''client''], ['''', ''appointments'', ''settings''])]"

definition guarded_screens :: "(string \<times> string list) list" where
  "guarded_screens =
     concat (map (\<lambda>(parent, allowed, kids).
                    map (\<lambda>k. (if k = [] then parent else parent @ ''/'' @ k, allowed)) kids)
                 AppRoutes)"

subsection \<open>Predicates of the session store\<close>

datatype error = TypeError

text \<open>
  The argument of \<^verbatim>\<open>hasRole\<close>: a string, an array of strings, or a value that is
  neither and has no \<^verbatim>\<open>includes\<close> method (\<^verbatim>\<open>undefined\<close>, \<^verbatim>\<open>null\<close>, a number, a
  plain object), on which \<^verbatim>\<open>roles.includes\<close> throws.
\<close>

datatype roles_arg = RoleName string | RoleArray "string list" | NoIncludes

definition hasRole :: "session \<Rightarrow> roles_arg \<Rightarrow> error + bool" where
  "hasRole s roles =
     (case user s of
        None \<Rightarrow> Inr False
      | Some u \<Rightarrow>
          (case roles of
             RoleName r \<Rightarrow> Inr (role u = Some r)
           | RoleArray rs \<Rightarrow> Inr (array_includes rs (role u))
           | NoIncludes \<Rightarrow> Inl TypeError))"

definition permissions :: "(string \<times> string list) list" where
  "permissions =
     [(''super_admin'', [''all'']),
      (''admin'', [''businesses'', ''users'', ''services'', ''staff'', ''appointments'',
                   ''clients'', ''finance'', ''reports'']),
      (''business'', [''services'', ''staff'', ''appointments'', ''clients'', ''finance'',
                      ''reports'']),
      (''staff'', [''appointments'', ''calendar'']),
      (''client'', [''my_appointments''])]"

text \<open>
  \<^verbatim>\<open>permissions[user.role] || []\<close> is an array for an own key and the empty array for a
  missing key. For a key found on \<^verbatim>\<open>Object.prototype\<close> it is a built-in object without
  an \<^verbatim>\<open>includes\<close> method, and the call on the next line throws.
\<close>

definition canAccess :: "session \<Rightarrow> string \<Rightarrow> error + bool" where
  "canAccess s resource =
     (case user s of
        None \<Rightarrow> Inr False
      | Some u \<Rightarrow>
          (case get_prop permissions (to_key (role u)) of
             Own userPermissions \<Rightarrow>
               Inr (''all'' \<in> set userPermissions \<or> resource \<in> set userPermissions)
           | Missing \<Rightarrow> Inr False
           | Inherited k \<Rightarrow> Inl TypeError))"

text \<open>
  The permitted resources as the specification words them (\<open>permittedResources\<close>):
  everything for super_admin, a fixed set for the four other roles, nothing for a value
  that is not a role.
\<close>

definition permittedResources :: "string option \<Rightarrow> string set" where
  "permittedResources r =
     (if r = Some ''super_admin'' then UNIV
      else if r = Some ''admin'' then
        {''businesses'', ''users'', ''services'', ''staff'', ''appointments'', ''clients'',
         ''finance'', ''reports''}
      else if r = Some ''business'' then
        {''services'', ''staff'', ''appointments'', ''clients'', ''finance'', ''reports''}
      else if r = Some ''staff'' then {''appointments'', ''calendar''}
      else if r = Some ''client'' then {''my_appointments''}
      else {})"

subsection \<open>Operations of the session store\<close>

text \<open>\<^verbatim>\<open>if (token)\<close>: \<^verbatim>\<open>null\<close> and the empty string are falsy.\<close>

definition truthy :: "string option \<Rightarrow> bool" where
  "truthy t = (case t of None \<Rightarrow> False | Some v \<Rightarrow> v \<noteq> [])"

text \<open>
  The three \<^verbatim>\<open>useState\<close> initialisers, run when \<^verbatim>\<open>AuthProvider\<close> mounts in a document
  whose storage holds \<open>st\<close> and whose location is \<open>p\<close>.
\<close>

definition AuthProvider_init :: "string option \<Rightarrow> string \<Rightarrow> session" where
  "AuthProvider_init st p =
     \<lparr>user = None, token = st, loading = True, storage = st, pathname = p, trace = []\<rparr>"

text \<open>
  The body of the \<^verbatim>\<open>useEffect\<close> on \<^verbatim>\<open>[token]\<close>. \<^verbatim>\<open>fetchUser\<close> runs up to its
  \<^verbatim>\<open>await\<close>: the request is issued, the continuation is one of the two functions after it.
\<close>

definition fetchUser :: "session \<Rightarrow> session" where
  "fetchUser s = s\<lparr>trace := trace s @ [Request ''GET'' ''/auth/me'']\<rparr>"

definition useEffect_token :: "session \<Rightarrow> session" where
  "useEffect_token s = (if truthy (token s) then fetchUser s else s\<lparr>loading := False\<rparr>)"

definition logout :: "session \<Rightarrow> session" where
  "logout s = s\<lparr>storage := None, token := None, user := None, trace := trace s @ [RemoveItem]\<rparr>"

text \<open>\<^verbatim>\<open>fetchUser\<close> after the request resolved with \<open>d\<close>, and after it was rejected.\<close>

definition fetchUser_resolved :: "session \<Rightarrow> identity \<Rightarrow> session" where
  "fetchUser_resolved s d = s\<lparr>user := Some d, loading := False\<rparr>"

definition fetchUser_rejected :: "session \<Rightarrow> session" where
  "fetchUser_rejected s = (logout s)\<lparr>loading := False\<rparr>"

text \<open>
  \<^verbatim>\<open>login\<close> and \<^verbatim>\<open>register\<close> up to their \<^verbatim>\<open>await\<close>, and their continuation when the
  server answers with \<^verbatim>\<open>{access_token, user}\<close>. A rejected request throws out of the
  function and leaves the state as it is.
\<close>

definition login :: "session \<Rightarrow> session" where
  "login s = s\<lparr>trace := trace s @ [Request ''POST'' ''/auth/login'']\<rparr>"

definition login_resolved :: "session \<Rightarrow> string \<Rightarrow> identity \<Rightarrow> session" where
  "login_resolved s access_token userData =
     s\<lparr>storage := Some access_token, token := Some access_token, user := Some userData,
       trace := trace s @ [SetItem access_token]\<rparr>"

definition register :: "session \<Rightarrow> session" where
  "register s = s\<lparr>trace := trace s @ [Request ''POST'' ''/auth/register'']\<rparr>"

definition register_resolved :: "session \<Rightarrow> string \<Rightarrow> identity \<Rightarrow> session" where
  "register_resolved s access_token newUser =
     s\<lparr>storage := Some access_token, token := Some access_token, user := Some newUser,
       trace := trace s @ [SetItem access_token]\<rparr>"

definition updateUser :: "session \<Rightarrow> identity \<Rightarrow> session" where
  "updateUser s userData = s\<lparr>user := Some userData\<rparr>"

text \<open>The number of network calls issued so far.\<close>

fun is_request :: "effect \<Rightarrow> bool" where
  "is_request (Request m u) = True"
| "is_request e = False"

definition network_calls :: "session \<Rightarrow> nat" where
  "network_calls s = length (filter is_request (trace s))"

subsection \<open>The HTTP client wrapper: request interceptor\<close>

record request_config =
  url :: "string option"
  http_method :: string
  data :: "string option"
  headers :: "string \<rightharpoonup> string"

text \<open>\<^verbatim>\<open>s.endsWith('/')\<close>, \<^verbatim>\<open>s.includes('?')\<close> and \<^verbatim>\<open>s.split('?')\<close>.\<close>

definition endsWith_slash :: "string \<Rightarrow> bool" where
  "endsWith_slash s = (s \<noteq> [] \<and> last s = CHR ''/'')"

definition includes_qmark :: "string \<Rightarrow> bool" where
  "includes_qmark s = (CHR ''?'' \<in> set s)"

fun split_qmark :: "string \<Rightarrow> string list" where
  "split_qmark [] = [[]]"
| "split_qmark (c # cs) =
     (if c = CHR ''?'' then [] # split_qmark cs
      else (case split_qmark cs of
              [] \<Rightarrow> [[c]]
            | p # ps \<Rightarrow> (c # p) # ps))"

text \<open>
  The second half of the interceptor. An absent or empty \<^verbatim>\<open>config.url\<close> is falsy and
  both conditions fail. \<^verbatim>\<open>const [path, query] = config.url.split('?')\<close> takes the first
  two pieces; a missing second piece would print as \<^verbatim>\<open>undefined\<close>.
\<close>

definition add_trailing_slash :: "string option \<Rightarrow> string option" where
  "add_trailing_slash u =
     (case u of
        None \<Rightarrow> None
      | Some v \<Rightarrow>
          if v \<noteq> [] \<and> \<not> endsWith_slash v \<and> \<not> includes_qmark v then Some (v @ ''/'')
          else if v \<noteq> [] \<and> includes_qmark v \<and> \<not> endsWith_slash (hd (split_qmark v)) then
            (case split_qmark v of
               path # query # rest \<Rightarrow> Some (path @ ''/?'' @ query)
             | [path] \<Rightarrow> Some (path @ ''/?undefined'')
             | [] \<Rightarrow> Some v)
          else Some v)"

text \<open>The fulfilled handler of \<^verbatim>\<open>api.interceptors.request\<close>; \<open>st\<close> is the stored token.\<close>

definition request_interceptor :: "string option \<Rightarrow> request_config \<Rightarrow> request_config" where
  "request_interceptor st config =
     (let config1 =
            (if truthy st
             then config\<lparr>headers := (headers config)(''Authorization'' \<mapsto> ''Bearer '' @ the st)\<rparr>
             else config)
      in config1\<lparr>url := add_trailing_slash (url config1)\<rparr>)"

subsection \<open>The HTTP client wrapper: response interceptor\<close>

text \<open>
  A value parsed from a JSON body. A number is the rational value of the parsed double;
  the code only tests numbers for zero.
\<close>

datatype json =
    JNull
  | JBool bool
  | JNum rat
  | JStr string
  | JArr "json list"
  | JObj "(string \<times> json) list"

record response =
  status :: int
  body :: json

text \<open>
  The rejection an axios call ends with: \<^verbatim>\<open>error.response\<close> is absent when no answer
  arrived. The field \<open>body\<close> is \<^verbatim>\<open>response.data\<close>.
\<close>

record api_error =
  response :: "response option"

text \<open>\<^verbatim>\<open>error.response?.status === 401\<close>\<close>

definition is_401 :: "api_error \<Rightarrow> bool" where
  "is_401 err = (case response err of None \<Rightarrow> False | Some r \<Rightarrow> status r = 401)"

text \<open>
  The rejected handler of \<^verbatim>\<open>api.interceptors.response\<close>. Assigning
  \<^verbatim>\<open>window.location.href\<close> asks the browser to load another document; it is recorded in
  the trace, and the pathname of the current document stays what it is until the browser
  replaces the document. The handler ends by rejecting with the same error.
\<close>

definition response_rejected :: "session \<Rightarrow> api_error \<Rightarrow> session" where
  "response_rejected s err =
     (if is_401 err then
        (let s1 = s\<lparr>storage := None, trace := trace s @ [RemoveItem]\<rparr>
         in if pathname s1 \<noteq> ''/login''
            then s1\<lparr>trace := trace s1 @ [SetHref ''/login'']\<rparr>
            else s1)
      else s)"

text \<open>Several rejections handled one after the other, in the order of arrival.\<close>

fun responses_rejected :: "session \<Rightarrow> api_error list \<Rightarrow> session" where
  "responses_rejected s [] = s"
| "responses_rejected s (e # es) = responses_rejected (response_rejected s e) es"

definition removals :: "session \<Rightarrow> nat" where
  "removals s = length (filter (\<lambda>e. e = RemoveItem) (trace s))"

definition redirects :: "session \<Rightarrow> string list" where
  "redirects s = concat (map (\<lambda>e. case e of SetHref p \<Rightarrow> [p] | _ \<Rightarrow> []) (trace s))"

subsection \<open>Normalising error payloads\<close>

text \<open>
  Reading one of the properties \<^verbatim>\<open>detail\<close>, \<^verbatim>\<open>msg\<close> or \<^verbatim>\<open>message\<close>; \<open>None\<close> is
  \<^verbatim>\<open>undefined\<close>. Strings, numbers, booleans and arrays have no property of these names.
  Reading a property of \<^verbatim>\<open>null\<close> throws and is dealt with by the callers.
\<close>

fun field :: "json \<Rightarrow> string \<Rightarrow> json option" where
  "field (JObj kvs) k = map_of kvs k"
| "field v k = None"

fun truthy_json :: "json option \<Rightarrow> bool" where
  "truthy_json None = False"
| "truthy_json (Some JNull) = False"
| "truthy_json (Some (JBool b)) = b"
| "truthy_json (Some (JNum n)) = (n \<noteq> 0)"
| "truthy_json (Some (JStr s)) = (s \<noteq> [])"
| "truthy_json (Some (JArr xs)) = True"
| "truthy_json (Some (JObj kvs)) = True"

text \<open>\<^verbatim>\<open>error.response?.data?.detail\<close>\<close>

definition error_detail :: "api_error \<Rightarrow> json option" where
  "error_detail err =
     (case response err of
        None \<Rightarrow> None
      | Some r \<Rightarrow> (case body r of JNull \<Rightarrow> None | b \<Rightarrow> field b ''detail''))"

text \<open>
  \<^verbatim>\<open>d.msg || d.message || JSON.stringify(d)\<close>. \<^verbatim>\<open>JSON.stringify\<close> and the printing of
  numbers belong to the platform and are parameters (\<open>stringify\<close>, \<open>num_str\<close>).
\<close>

definition msg_or_text :: "(json \<Rightarrow> string) \<Rightarrow> json \<Rightarrow> error + json" where
  "msg_or_text stringify d =
     (if d = JNull then Inl TypeError
      else if truthy_json (field d ''msg'') then Inr (the (field d ''msg''))
      else if truthy_json (field d ''message'') then Inr (the (field d ''message''))
      else Inr (JStr (stringify d)))"

text \<open>\<^verbatim>\<open>xs.join(sep)\<close> on an array whose entries are strings already.\<close>

fun join :: "string \<Rightarrow> string list \<Rightarrow> string" where
  "join sep [] = []"
| "join sep [x] = x"
| "join sep (x # y # ys) = x @ sep @ join sep (y # ys)"

text \<open>
  The conversion of a value to a string, as \<^verbatim>\<open>join\<close> applies it to every entry that is
  not \<^verbatim>\<open>null\<close>. An array prints as its entries joined by commas. A plain object prints
  through the \<^verbatim>\<open>toString\<close> it inherits; an object parsed from JSON that has a key
  \<^verbatim>\<open>toString\<close> of its own hides the inherited one by a value that cannot be called, and
  the conversion throws.
\<close>

fun to_string :: "(rat \<Rightarrow> string) \<Rightarrow> json \<Rightarrow> error + string"
  and join_entries :: "(rat \<Rightarrow> string) \<Rightarrow> json list \<Rightarrow> error + string list" where
  "to_string num_str JNull = Inr ''null''"
| "to_string num_str (JBool b) = Inr (if b then ''true'' else ''false'')"
| "to_string num_str (JNum n) = Inr (num_str n)"
| "to_string num_str (JStr s) = Inr s"
| "to_string num_str (JArr xs) =
     (case join_entries num_str xs of Inl e \<Rightarrow> Inl e | Inr ss \<Rightarrow> Inr (join '','' ss))"
| "to_string num_str (JObj kvs) =
     (if map_of kvs ''toString'' \<noteq> None then Inl TypeError else Inr ''[object Object]'')"
| "join_entries num_str [] = Inr []"
| "join_entries num_str (x # xs) =
     (case (if x = JNull then Inr [] else to_string num_str x) of
        Inl e \<Rightarrow> Inl e
      | Inr s \<Rightarrow> (case join_entries num_str xs of Inl e \<Rightarrow> Inl e | Inr ss \<Rightarrow> Inr (s # ss)))"

text \<open>\<^verbatim>\<open>detail.map(f)\<close> where \<^verbatim>\<open>f\<close> may throw: the first throw ends the call.\<close>

fun map_throwing :: "('a \<Rightarrow> error + 'b) \<Rightarrow> 'a list \<Rightarrow> error + 'b list" where
  "map_throwing f [] = Inr []"
| "map_throwing f (x # xs) =
     (case f x of
        Inl e \<Rightarrow> Inl e
      | Inr y \<Rightarrow> (case map_throwing f xs of Inl e \<Rightarrow> Inl e | Inr ys \<Rightarrow> Inr (y # ys)))"

text \<open>
  \<open>defaultMessage\<close> is \<open>None\<close> when the caller leaves the second argument out. The result
  is the returned value, which is a string in most branches but whatever \<^verbatim>\<open>detail.msg\<close>
  holds in the object branch.
\<close>

definition parseErrorMessage ::
  "(json \<Rightarrow> string) \<Rightarrow> (rat \<Rightarrow> string) \<Rightarrow> api_error \<Rightarrow> string option \<Rightarrow> error + json" where
  "parseErrorMessage stringify num_str err defaultMessage =
     (let dflt = (case defaultMessage of None \<Rightarrow> ''Server error'' | Some m \<Rightarrow> m)
      in if truthy_json (error_detail err) then
           (case error_detail err of
              Some (JStr detail) \<Rightarrow> Inr (JStr detail)
            | Some (JArr detail) \<Rightarrow>
                (case map_throwing (msg_or_text stringify) detail of
                   Inl e \<Rightarrow> Inl e
                 | Inr ms \<Rightarrow>
                     (case join_entries num_str ms of
                        Inl e \<Rightarrow> Inl e
                      | Inr ss \<Rightarrow> Inr (JStr (join '', '' ss))))
            | Some (JObj detail) \<Rightarrow> msg_or_text stringify (JObj detail)
            | _ \<Rightarrow> Inr (JStr dflt))
         else Inr (JStr dflt))"

text \<open>The contract as the specification words it: string, else list, else default.\<close>

datatype detail_shape = DetailString string | DetailList "string list" | DetailOther

definition parseErrorMessage_spec :: "detail_shape \<Rightarrow> string \<Rightarrow> string" where
  "parseErrorMessage_spec d dflt =
     (case d of
        DetailString s \<Rightarrow> s
      | DetailList ms \<Rightarrow> join '', '' ms
      | DetailOther \<Rightarrow> dflt)"

subsection \<open>Reachable session states\<close>

text \<open>
  The states the session store can be in: a document is loaded, and then the effect, the
  operations of the store, the continuations of its requests, the response interceptor
  and client-side navigation act on the state in any order.
\<close>

inductive reachable :: "session \<Rightarrow> bool" where
  r_init: "reachable (AuthProvider_init st p)"
| r_effect: "reachable s \<Longrightarrow> reachable (useEffect_token s)"
| r_fetch_resolved: "reachable s \<Longrightarrow> reachable (fetchUser_resolved s d)"
| r_fetch_rejected: "reachable s \<Longrightarrow> reachable (fetchUser_rejected s)"
| r_login: "reachable s \<Longrightarrow> reachable (login s)"
| r_login_resolved: "reachable s \<Longrightarrow> reachable (login_resolved s t u)"
| r_register: "reachable s \<Longrightarrow> reachable (register s)"
| r_register_resolved: "reachable s \<Longrightarrow> reachable (register_resolved s t u)"
| r_logout: "reachable s \<Longrightarrow> reachable (logout s)"
| r_updateUser: "reachable s \<Longrightarrow> reachable (updateUser s u)"
| r_response_rejected: "reachable s \<Longrightarrow> reachable (response_rejected s err)"
| r_navigate: "reachable s \<Longrightarrow> reachable (s\<lparr>pathname := p\<rparr>)"

text \<open>
  The same, with the two setters of the Identity that do not look at the token
  (\<^verbatim>\<open>updateUser\<close> and the continuation of \<^verbatim>\<open>fetchUser\<close>) run only while a token is held.
\<close>

inductive reachable_held :: "session \<Rightarrow> bool" where
  h_init: "reachable_held (AuthProvider_init st p)"
| h_effect: "reachable_held s \<Longrightarrow> reachable_held (useEffect_token s)"
| h_fetch_resolved: "reachable_held s \<Longrightarrow> token s \<noteq> None \<Longrightarrow> reachable_held (fetchUser_resolved s d)"
| h_fetch_rejected: "reachable_held s \<Longrightarrow> reachable_held (fetchUser_rejected s)"
| h_login: "reachable_held s \<Longrightarrow> reachable_held (login s)"
| h_login_resolved: "reachable_held s \<Longrightarrow> reachable_held (login_resolved s t u)"
| h_register: "reachable_held s \<Longrightarrow> reachable_held (register s)"
| h_register_resolved: "reachable_held s \<Longrightarrow> reachable_held (register_resolved s t u)"
| h_logout: "reachable_held s \<Longrightarrow> reachable_held (logout s)"
| h_updateUser: "reachable_held s \<Longrightarrow> token s \<noteq> None \<Longrightarrow> reachable_held (updateUser s u)"
| h_response_rejected: "reachable_held s \<Longrightarrow> reachable_held (response_rejected s err)"
| h_navigate: "reachable_held s \<Longrightarrow> reachable_held (s\<lparr>pathname := p\<rparr>)"

text \<open>
  The states in which the guards are rendered. \<^verbatim>\<open>login\<close> is called by the Login page,
  \<^verbatim>\<open>register\<close> by the Register page and \<^verbatim>\<open>updateUser\<close> by the Settings page. These
  pages are children of \<open>PublicRoute\<close> and \<open>ProtectedRoute\<close>, which render them only
  when \<open>loading\<close> is false, and no operation of the store sets \<open>loading\<close> back to true:
  the three run only in states that are no longer loading. The continuation of
  \<^verbatim>\<open>fetchUser\<close> sets the Identity and ends loading in one step.
\<close>

inductive app_state :: "session \<Rightarrow> bool" where
  a_init: "app_state (AuthProvider_init st p)"
| a_effect: "app_state s \<Longrightarrow> app_state (useEffect_token s)"
| a_fetch_resolved: "app_state s \<Longrightarrow> app_state (fetchUser_resolved s d)"
| a_fetch_rejected: "app_state s \<Longrightarrow> app_state (fetchUser_rejected s)"
| a_login: "app_state s \<Longrightarrow> \<not> loading s \<Longrightarrow> app_state (login s)"
| a_login_resolved: "app_state s \<Longrightarrow> \<not> loading s \<Longrightarrow> app_state (login_resolved s t u)"
| a_register: "app_state s \<Longrightarrow> \<not> loading s \<Longrightarrow> app_state (register s)"
| a_register_resolved: "app_state s \<Longrightarrow> \<not> loading s \<Longrightarrow> app_state (register_resolved s t u)"
| a_logout: "app_state s \<Longrightarrow> app_state (logout s)"
| a_updateUser: "app_state s \<Longrightarrow> \<not> loading s \<Longrightarrow> app_state (updateUser s u)"
| a_response_rejected: "app_state s \<Longrightarrow> app_state (response_rejected s err)"
| a_navigate: "app_state s \<Longrightarrow> app_state (s\<lparr>pathname := p\<rparr>)"

section \<open>Properties\<close>

subsection \<open>Auxiliary facts about the redirect map and the rendered states\<close>

lemma redirect_to_known:
  "to_key r \<notin> set object_prototype_names \<Longrightarrow>
     redirect_to redirectMap_ProtectedRoute r = Path (homeRouteFor r) \<and>
     redirect_to redirectMap_PublicRoute r = Path (homeRouteFor r)"
  by (cases r)
     (auto simp: redirect_to_def get_prop_def to_key_def homeRouteFor_def
        redirectMap_ProtectedRoute_def redirectMap_PublicRoute_def object_prototype_names_def)

lemma role_not_prototype_name:
  "R \<in> set all_roles \<Longrightarrow> to_key (Some R) \<notin> set object_prototype_names"
  by (auto simp: all_roles_def to_key_def object_prototype_names_def)

lemma redirect_maps_agree:
  "redirect_to redirectMap_ProtectedRoute r = redirect_to redirectMap_PublicRoute r"
  by (simp add: redirect_to_def redirectMap_ProtectedRoute_def redirectMap_PublicRoute_def)

lemma ProtectedRoute_wrong_role:
  assumes "user s = Some u" and "role u = Some R" and "R \<notin> set allowed"
  shows "ProtectedRoute s c (Some allowed) =
           (if loading s then Spinner
            else Navigate (redirect_to redirectMap_ProtectedRoute (Some R)) True)"
  using assms
  by (simp add: ProtectedRoute_def isAuthenticated_def user_role_def array_includes_def)

text \<open>Whenever a guard is rendered with an Identity, loading is over.\<close>

lemma app_state_identity_loaded:
  assumes "app_state s"
  shows "user s \<noteq> None \<longrightarrow> \<not> loading s"
  using assms
proof (induction rule: app_state.induct)
  case (a_init st p)
  show ?case by (simp add: AuthProvider_init_def)
next
  case (a_effect s)
  then show ?case by (simp add: useEffect_token_def fetchUser_def)
next
  case (a_fetch_resolved s d)
  show ?case by (simp add: fetchUser_resolved_def)
next
  case (a_fetch_rejected s)
  show ?case by (simp add: fetchUser_rejected_def)
next
  case (a_login s)
  then show ?case by (simp add: login_def)
next
  case (a_login_resolved s t u)
  then show ?case by (simp add: login_resolved_def)
next
  case (a_register s)
  then show ?case by (simp add: register_def)
next
  case (a_register_resolved s t u)
  then show ?case by (simp add: register_resolved_def)
next
  case (a_logout s)
  show ?case by (simp add: logout_def)
next
  case (a_updateUser s u)
  then show ?case by (simp add: updateUser_def)
next
  case (a_response_rejected s err)
  then show ?case by (simp add: response_rejected_def Let_def)
next
  case (a_navigate s p)
  then show ?case by simp
qed

subsection \<open>Route guards\<close>

text \<open>
  Claim C1. For every role \<open>R\<close> among super_admin, admin, business, staff and client
  and every guarded screen path \<open>P\<close> whose allowed-role set excludes \<open>R\<close>, rendering
  \<open>ProtectedRoute\<close> in a state of the application that holds an Identity of role \<open>R\<close>
  gives a history-replacing redirect to the home route of \<open>R\<close> and never the guarded
  content.
\<close>

theorem protected_route_wrong_role:
  assumes "app_state s" and "R \<in> set all_roles" and "(P, allowed) \<in> set guarded_screens"
    and "R \<notin> set allowed" and "user s = Some u" and "role u = Some R"
  shows "ProtectedRoute s c (Some allowed) = Navigate (Path (homeRouteFor (Some R))) True
         \<and> (\<forall>c'. ProtectedRoute s c (Some allowed) \<noteq> Children c')"
proof -
  have "\<not> loading s"
    using app_state_identity_loaded [OF assms(1)] assms(5) by simp
  moreover have "redirect_to redirectMap_ProtectedRoute (Some R) = Path (homeRouteFor (Some R))"
    using redirect_to_known role_not_prototype_name assms(2) by blast
  ultimately show ?thesis
    using ProtectedRoute_wrong_role [OF assms(5,6,4), of c] by simp
qed

theorem protected_route_wrong_role_witness:
  "app_state ((login_resolved (useEffect_token (AuthProvider_init None ''/login''))
        ''tok'' \<lparr>uid = ''7'', role = Some ''client''\<rparr>)\<lparr>pathname := ''/admin/users''\<rparr>)
   \<and> ''client'' \<in> set all_roles
   \<and> (''/admin/users'', [''super_admin'', ''admin'']) \<in> set guarded_screens
   \<and> ''client'' \<notin> set [''super_admin'', ''admin'']
   \<and> ProtectedRoute ((login_resolved (useEffect_token (AuthProvider_init None ''/login''))
        ''tok'' \<lparr>uid = ''7'', role = Some ''client''\<rparr>)\<lparr>pathname := ''/admin/users''\<rparr>)
        ''Users'' (Some [''super_admin'', ''admin'']) = Navigate (Path ''/client'') True"
proof -
  let ?u = "\<lparr>uid = ''7'', role = Some ''client''\<rparr>"
  let ?init = "useEffect_token (AuthProvider_init None ''/login'')"
  let ?s = "(login_resolved ?init ''tok'' ?u)\<lparr>pathname := ''/admin/users''\<rparr>"
  have l: "\<not> loading ?init"
    by (simp add: useEffect_token_def AuthProvider_init_def truthy_def)
  have r0: "app_state ?init" by (intro a_effect a_init)
  have r1: "app_state (login_resolved ?init ''tok'' ?u)" using r0 l by (rule a_login_resolved)
  have r: "app_state ?s" using r1 by (rule a_navigate)
  have a: "''client'' \<in> set all_roles" by (simp add: all_roles_def)
  have b: "(''/admin/users'', [''super_admin'', ''admin'']) \<in> set guarded_screens"
    by (simp add: guarded_screens_def AppRoutes_def)
  have c: "''client'' \<notin> set [''super_admin'', ''admin'']" by simp
  have d: "user ?s = Some ?u" by (simp add: login_resolved_def)
  have e: "role ?u = Some ''client''" by simp
  have h: "homeRouteFor (Some ''client'') = ''/client''" by (simp add: homeRouteFor_def)
  have t: "ProtectedRoute ?s ''Users'' (Some [''super_admin'', ''admin''])
             = Navigate (Path (homeRouteFor (Some ''client''))) True"
    using protected_route_wrong_role [OF r a b c d e, of "''Users''"] by blast
  have t': "ProtectedRoute ?s ''Users'' (Some [''super_admin'', ''admin''])
             = Navigate (Path ''/client'') True"
    using t h by (simp only:)
  from r a b c t' show ?thesis by blast
qed



subsection \<open>Access policy\<close>

text \<open>
  Claim C3, evaluated on the code. The redirect map sends super_admin and admin to
  \<^verbatim>\<open>/admin\<close>, business to \<^verbatim>\<open>/business\<close>, staff to \<^verbatim>\<open>/staff\<close>, client to
  \<^verbatim>\<open>/client\<close>, and the absent role and an unknown role such as \<^verbatim>\<open>guest\<close> to \<^verbatim>\<open>/\<close>.
  The unknown role \<^verbatim>\<open>constructor\<close> is not sent to \<^verbatim>\<open>/\<close>, where \<open>homeRouteFor\<close>
  sends it: the lookup finds the member inherited from \<^verbatim>\<open>Object.prototype\<close>, which is
  truthy, the fallback is skipped, and \<open>PublicRoute\<close> navigates to a built-in function.
\<close>

theorem home_route_inherited_name:
  "redirect_to redirectMap_ProtectedRoute (Some ''super_admin'') = Path ''/admin''
   \<and> redirect_to redirectMap_ProtectedRoute (Some ''admin'') = Path ''/admin''
   \<and> redirect_to redirectMap_ProtectedRoute (Some ''business'') = Path ''/business''
   \<and> redirect_to redirectMap_ProtectedRoute (Some ''staff'') = Path ''/staff''
   \<and> redirect_to redirectMap_ProtectedRoute (Some ''client'') = Path ''/client''
   \<and> redirect_to redirectMap_ProtectedRoute None = Path ''/''
   \<and> redirect_to redirectMap_ProtectedRoute (Some ''guest'') = Path ''/''
   \<and> homeRouteFor (Some ''constructor'') = ''/''
   \<and> redirect_to redirectMap_ProtectedRoute (Some ''constructor'') = Builtin ''constructor''
   \<and> redirect_to redirectMap_PublicRoute (Some ''constructor'') = Builtin ''constructor''
   \<and> redirect_to redirectMap_ProtectedRoute (Some ''constructor'') \<noteq> Path ''/''
   \<and> PublicRoute ((login_resolved (useEffect_token (AuthProvider_init None ''/login''))
          ''tok'' \<lparr>uid = ''9'', role = Some ''constructor''\<rparr>)) ''Login''
        = Navigate (Builtin ''constructor'') True"
  by (simp add: redirect_to_def get_prop_def to_key_def homeRouteFor_def
        redirectMap_ProtectedRoute_def redirectMap_PublicRoute_def object_prototype_names_def
        PublicRoute_def login_resolved_def useEffect_token_def AuthProvider_init_def
        truthy_def isAuthenticated_def user_role_def)

text \<open>
  Claim C4. For every Identity and every resource name, \<open>canAccess\<close> returns true
  exactly when the role is super_admin or the resource is in the fixed set of the role.
\<close>

theorem canAccess_iff_permitted:
  "(canAccess (s\<lparr>user := Some u\<rparr>) r = Inr True) =
     (role u = Some ''super_admin'' \<or> r \<in> permittedResources (role u))"
  by (cases "role u")
     (auto simp: canAccess_def get_prop_def to_key_def permissions_def permittedResources_def
        object_prototype_names_def)

text \<open>
  Claim C10. Without an Identity, \<open>hasRole\<close> returns false for every argument (a
  string, an array, or anything else) and \<open>canAccess\<close> returns false for every resource.
\<close>

theorem no_identity_no_access:
  "hasRole (s\<lparr>user := None\<rparr>) roles = Inr False \<and> canAccess (s\<lparr>user := None\<rparr>) resource = Inr False"
  by (simp add: hasRole_def canAccess_def)

subsection \<open>Session store\<close>

text \<open>
  Claim C8. \<open>logout\<close> clears the stored token, the token held in memory and the
  Identity; a second call leaves all of them as they are (it only repeats the call to
  \<^verbatim>\<open>removeItem\<close>); and a document loaded with no stored token, in particular after a
  logout, reaches \<open>loading = False\<close> and \<open>isAuthenticated = False\<close> with no network call.
\<close>

theorem logout_clears_and_cold_start:
  "storage (logout s) = None \<and> token (logout s) = None \<and> user (logout s) = None
   \<and> \<not> isAuthenticated (logout s)
   \<and> logout (logout s) = (logout s)\<lparr>trace := trace (logout s) @ [RemoveItem]\<rparr>
   \<and> loading (useEffect_token (AuthProvider_init None p)) = False
   \<and> \<not> isAuthenticated (useEffect_token (AuthProvider_init None p))
   \<and> network_calls (useEffect_token (AuthProvider_init None p)) = 0
   \<and> useEffect_token (AuthProvider_init (storage (logout s)) p)
       = \<lparr>user = None, token = None, loading = False, storage = None, pathname = p, trace = []\<rparr>"
  by (simp add: logout_def useEffect_token_def AuthProvider_init_def isAuthenticated_def
        network_calls_def truthy_def)


text \<open>
  Claim C9, for the token held in memory and with the two unguarded setters of the
  Identity run only while a token is held. In every state reached by initialisation,
  the mount effect, login, register, logout, the response interceptor, navigation, and by
  \<open>updateUser\<close> and the continuation of \<open>fetchUser\<close> run while a token is held, an
  absent token implies an absent Identity. The store holds the Identity in one nullable
  cell, so at most one is held.
\<close>

theorem token_identity_consistent:
  assumes "reachable_held s"
  shows "token s = None \<longrightarrow> user s = None"
  using assms
proof (induction rule: reachable_held.induct)
  case (h_init st p)
  show ?case by (simp add: AuthProvider_init_def)
next
  case (h_effect s)
  then show ?case by (simp add: useEffect_token_def fetchUser_def)
next
  case (h_fetch_resolved s d)
  then show ?case by (simp add: fetchUser_resolved_def)
next
  case (h_fetch_rejected s)
  show ?case by (simp add: fetchUser_rejected_def logout_def)
next
  case (h_login s)
  then show ?case by (simp add: login_def)
next
  case (h_login_resolved s t u)
  show ?case by (simp add: login_resolved_def)
next
  case (h_register s)
  then show ?case by (simp add: register_def)
next
  case (h_register_resolved s t u)
  show ?case by (simp add: register_resolved_def)
next
  case (h_logout s)
  show ?case by (simp add: logout_def)
next
  case (h_updateUser s u)
  then show ?case by (simp add: updateUser_def)
next
  case (h_response_rejected s err)
  then show ?case by (simp add: response_rejected_def Let_def)
next
  case (h_navigate s p)
  then show ?case by simp
qed

theorem token_identity_consistent_witness:
  "reachable_held (logout (login_resolved (useEffect_token (AuthProvider_init None ''/login''))
        ''tok'' \<lparr>uid = ''1'', role = Some ''staff''\<rparr>))
   \<and> token (logout (login_resolved (useEffect_token (AuthProvider_init None ''/login''))
        ''tok'' \<lparr>uid = ''1'', role = Some ''staff''\<rparr>)) = None
   \<and> user (logout (login_resolved (useEffect_token (AuthProvider_init None ''/login''))
        ''tok'' \<lparr>uid = ''1'', role = Some ''staff''\<rparr>)) = None"
proof -
  have r: "reachable_held (logout (login_resolved (useEffect_token (AuthProvider_init None ''/login''))
        ''tok'' \<lparr>uid = ''1'', role = Some ''staff''\<rparr>))"
    by (intro h_logout h_login_resolved h_effect h_init)
  have t: "token (logout (login_resolved (useEffect_token (AuthProvider_init None ''/login''))
        ''tok'' \<lparr>uid = ''1'', role = Some ''staff''\<rparr>)) = None"
    by (simp add: logout_def)
  from r t token_identity_consistent [OF r] show ?thesis by blast
qed

text \<open>
  With \<open>updateUser\<close> as the store exposes it the invariant fails: after a logout, a
  profile update that was still in flight puts an Identity back while neither the memory
  nor the storage holds a token.
\<close>

theorem identity_without_token_counterexample:
  "reachable (updateUser (logout (login_resolved (useEffect_token (AuthProvider_init None ''/login''))
        ''tok'' \<lparr>uid = ''1'', role = Some ''staff''\<rparr>)) \<lparr>uid = ''1'', role = Some ''staff''\<rparr>)
   \<and> token (updateUser (logout (login_resolved (useEffect_token (AuthProvider_init None ''/login''))
        ''tok'' \<lparr>uid = ''1'', role = Some ''staff''\<rparr>)) \<lparr>uid = ''1'', role = Some ''staff''\<rparr>) = None
   \<and> storage (updateUser (logout (login_resolved (useEffect_token (AuthProvider_init None ''/login''))
        ''tok'' \<lparr>uid = ''1'', role = Some ''staff''\<rparr>)) \<lparr>uid = ''1'', role = Some ''staff''\<rparr>) = None
   \<and> user (updateUser (logout (login_resolved (useEffect_token (AuthProvider_init None ''/login''))
        ''tok'' \<lparr>uid = ''1'', role = Some ''staff''\<rparr>)) \<lparr>uid = ''1'', role = Some ''staff''\<rparr>)
       = Some \<lparr>uid = ''1'', role = Some ''staff''\<rparr>"
proof -
  have "reachable (updateUser (logout (login_resolved (useEffect_token (AuthProvider_init None ''/login''))
        ''tok'' \<lparr>uid = ''1'', role = Some ''staff''\<rparr>)) \<lparr>uid = ''1'', role = Some ''staff''\<rparr>)"
    by (intro r_updateUser r_logout r_login_resolved r_effect r_init)
  then show ?thesis by (simp add: updateUser_def logout_def)
qed

subsection \<open>Request interceptor\<close>

lemma split_qmark_none: "\<not> includes_qmark q \<Longrightarrow> split_qmark q = [q]"
  by (induction q) (auto simp: includes_qmark_def)

lemma split_qmark_first:
  "\<not> includes_qmark p \<Longrightarrow> split_qmark (p @ CHR ''?'' # q) = p # split_qmark q"
  by (induction p) (auto simp: includes_qmark_def)

lemma add_trailing_slash_plain:
  "\<not> includes_qmark v \<Longrightarrow>
     add_trailing_slash (Some v) = Some (if v = [] \<or> endsWith_slash v then v else v @ ''/'')"
  by (simp add: add_trailing_slash_def)

lemma add_trailing_slash_query:
  assumes "\<not> includes_qmark p" and "\<not> includes_qmark q"
  shows "add_trailing_slash (Some (p @ ''?'' @ q)) =
           Some (if endsWith_slash p then p @ ''?'' @ q else p @ ''/?'' @ q)"
proof -
  have sp: "split_qmark (p @ ''?'' @ q) = [p, q]"
    using assms by (simp add: split_qmark_first split_qmark_none)
  have inc: "includes_qmark (p @ ''?'' @ q)" by (simp add: includes_qmark_def)
  show ?thesis using sp inc by (simp add: add_trailing_slash_def)
qed

text \<open>
  Claim C5, with the rewriting of the URL stated. The request interceptor leaves method
  and body alone, sets the header \<^verbatim>\<open>Authorization: Bearer <token>\<close> exactly when the
  stored token is a non-empty string and touches no other header, and puts a slash at the
  end of the path of the URL when there is none: at the end of a URL without a question
  mark, before the question mark of a URL with one. An absent or empty URL and a path
  that ends with a slash stay as they are.
\<close>

theorem request_interceptor_effect:
  "http_method (request_interceptor st c) = http_method c
   \<and> data (request_interceptor st c) = data c
   \<and> (t \<noteq> [] \<longrightarrow>
        headers (request_interceptor (Some t) c) = (headers c)(''Authorization'' \<mapsto> ''Bearer '' @ t))
   \<and> headers (request_interceptor None c) = headers c
   \<and> headers (request_interceptor (Some []) c) = headers c
   \<and> url (request_interceptor st (c\<lparr>url := None\<rparr>)) = None
   \<and> (\<not> includes_qmark v \<longrightarrow>
        url (request_interceptor st (c\<lparr>url := Some v\<rparr>)) =
          Some (if v = [] \<or> endsWith_slash v then v else v @ ''/''))
   \<and> (\<not> includes_qmark p \<and> \<not> includes_qmark q \<longrightarrow>
        url (request_interceptor st (c\<lparr>url := Some (p @ ''?'' @ q)\<rparr>)) =
          Some (if endsWith_slash p then p @ ''?'' @ q else p @ ''/?'' @ q))"
  using add_trailing_slash_plain [of v] add_trailing_slash_query [of p q]
  by (simp add: request_interceptor_def Let_def truthy_def add_trailing_slash_def)

theorem request_interceptor_effect_witness:
  "headers (request_interceptor (Some ''abc'') \<lparr>url = Some ''/auth/me'', http_method = ''get'',
        data = None, headers = Map.empty\<rparr>) = [''Authorization'' \<mapsto> ''Bearer abc'']
   \<and> url (request_interceptor (Some ''abc'') \<lparr>url = Some ''/auth/me'', http_method = ''get'',
        data = None, headers = Map.empty\<rparr>) = Some ''/auth/me/''
   \<and> url (request_interceptor (Some ''abc'') \<lparr>url = Some ''/users?role=staff'', http_method = ''get'',
        data = None, headers = Map.empty\<rparr>) = Some ''/users/?role=staff''"
proof -
  have a: "''abc'' \<noteq> []" by simp
  have b: "\<not> includes_qmark ''/auth/me''" by (simp add: includes_qmark_def)
  have c: "\<not> includes_qmark ''/users'' \<and> \<not> includes_qmark ''role=staff''"
    by (simp add: includes_qmark_def)
  from a b c request_interceptor_effect [of "Some ''abc''"
      "\<lparr>url = Some ''/auth/me'', http_method = ''get'', data = None, headers = Map.empty\<rparr>"
      "''abc''" "''/auth/me''" "''/users''" "''role=staff''"]
  show ?thesis by (simp add: endsWith_slash_def)
qed

text \<open>
  The URL is not left unchanged: the login request goes out to \<^verbatim>\<open>/auth/login/\<close>.
\<close>

theorem request_interceptor_url_counterexample:
  "url (request_interceptor None \<lparr>url = Some ''/auth/login'', http_method = ''post'',
        data = Some ''username=a&password=b'', headers = Map.empty\<rparr>) = Some ''/auth/login/''
   \<and> url (request_interceptor None \<lparr>url = Some ''/auth/login'', http_method = ''post'',
        data = Some ''username=a&password=b'', headers = Map.empty\<rparr>)
       \<noteq> url \<lparr>url = Some ''/auth/login'', http_method = ''post'',
        data = Some ''username=a&password=b'', headers = Map.empty\<rparr>"
  by (simp add: request_interceptor_def truthy_def add_trailing_slash_def endsWith_slash_def
        includes_qmark_def)

subsection \<open>Response interceptor\<close>

lemma response_rejected_fields:
  "user (response_rejected s e) = user s \<and> token (response_rejected s e) = token s
   \<and> loading (response_rejected s e) = loading s \<and> pathname (response_rejected s e) = pathname s"
  by (simp add: response_rejected_def Let_def)

lemma response_rejected_401:
  "is_401 e \<Longrightarrow> storage (response_rejected s e) = None
     \<and> removals (response_rejected s e) = Suc (removals s)
     \<and> redirects (response_rejected s e) =
         redirects s @ (if pathname s = ''/login'' then [] else [''/login''])"
  by (simp add: response_rejected_def Let_def removals_def redirects_def)

lemma response_rejected_other: "\<not> is_401 e \<Longrightarrow> response_rejected s e = s"
  by (simp add: response_rejected_def)

lemma responses_rejected_pathname:
  "pathname (responses_rejected s es) = pathname s"
  by (induction es arbitrary: s) (simp_all add: response_rejected_fields)

lemma responses_rejected_memory:
  "user (responses_rejected s es) = user s \<and> token (responses_rejected s es) = token s
   \<and> loading (responses_rejected s es) = loading s"
  by (induction es arbitrary: s) (simp_all add: response_rejected_fields)

lemma responses_rejected_storage:
  "storage (responses_rejected s es) = (if \<exists>e \<in> set es. is_401 e then None else storage s)"
proof (induction es arbitrary: s)
  case Nil
  show ?case by simp
next
  case (Cons e es)
  show ?case
  proof (cases "is_401 e")
    case True
    then show ?thesis using Cons [of "response_rejected s e"]
      by (simp add: response_rejected_401)
  next
    case False
    then show ?thesis using Cons [of s] by (simp add: response_rejected_other)
  qed
qed

lemma responses_rejected_removals:
  "removals (responses_rejected s es) = removals s + length (filter is_401 es)"
proof (induction es arbitrary: s)
  case Nil
  show ?case by simp
next
  case (Cons e es)
  show ?case
  proof (cases "is_401 e")
    case True
    then show ?thesis using Cons [of "response_rejected s e"]
      by (simp add: response_rejected_401)
  next
    case False
    then show ?thesis using Cons [of s] by (simp add: response_rejected_other)
  qed
qed

lemma responses_rejected_redirects:
  "redirects (responses_rejected s es) =
     redirects s @ replicate (if pathname s = ''/login'' then 0 else length (filter is_401 es)) ''/login''"
proof (induction es arbitrary: s)
  case Nil
  show ?case by simp
next
  case (Cons e es)
  show ?case
  proof (cases "is_401 e")
    case True
    then show ?thesis using Cons [of "response_rejected s e"]
      by (simp add: response_rejected_401 response_rejected_fields replicate_app_Cons_same)
  next
    case False
    then show ?thesis using Cons [of s] by (simp add: response_rejected_other)
  qed
qed

text \<open>
  Claim C6, counted per response. A rejection with status 401 removes the stored token
  and, unless the current path is \<^verbatim>\<open>/login\<close>, asks for \<^verbatim>\<open>/login\<close>. When several
  rejections are handled in one document, the token is absent as soon as one of them
  was a 401, the removal is performed once for each 401, the redirect is requested once
  for each 401 (never on \<^verbatim>\<open>/login\<close>) and always to \<^verbatim>\<open>/login\<close>; the Identity and the
  token held in memory are not touched.
\<close>

theorem unauthorized_handled_per_response:
  "(is_401 e \<longrightarrow>
      storage (response_rejected s e) = None
      \<and> redirects (response_rejected s e) =
           redirects s @ (if pathname s = ''/login'' then [] else [''/login'']))
   \<and> ((\<exists>x \<in> set es. is_401 x) \<longrightarrow> storage (responses_rejected s es) = None)
   \<and> removals (responses_rejected s es) = removals s + length (filter is_401 es)
   \<and> redirects (responses_rejected s es) =
        redirects s @ replicate (if pathname s = ''/login'' then 0 else length (filter is_401 es))
                        ''/login''
   \<and> user (responses_rejected s es) = user s \<and> token (responses_rejected s es) = token s"
  using response_rejected_401 [of e s] responses_rejected_storage [of s es]
    responses_rejected_removals [of s es] responses_rejected_redirects [of s es]
    responses_rejected_memory [of s es]
  by simp

theorem unauthorized_handled_per_response_witness:
  "is_401 \<lparr>response = Some \<lparr>status = 401, body = JNull\<rparr>\<rparr>
   \<and> storage (responses_rejected
        \<lparr>user = None, token = Some ''t'', loading = False, storage = Some ''t'',
         pathname = ''/admin'', trace = []\<rparr>
        [\<lparr>response = Some \<lparr>status = 401, body = JNull\<rparr>\<rparr>, \<lparr>response = None\<rparr>]) = None
   \<and> redirects (responses_rejected
        \<lparr>user = None, token = Some ''t'', loading = False, storage = Some ''t'',
         pathname = ''/admin'', trace = []\<rparr>
        [\<lparr>response = Some \<lparr>status = 401, body = JNull\<rparr>\<rparr>, \<lparr>response = None\<rparr>]) = [''/login'']"
proof -
  have a: "is_401 \<lparr>response = Some \<lparr>status = 401, body = JNull\<rparr>\<rparr>" by (simp add: is_401_def)
  have b: "\<not> is_401 \<lparr>response = None\<rparr>" by (simp add: is_401_def)
  have c: "redirects \<lparr>user = None, token = Some ''t'', loading = False, storage = Some ''t'',
         pathname = ''/admin'', trace = []\<rparr> = []" by (simp add: redirects_def)
  from a b c unauthorized_handled_per_response [of
      "\<lparr>response = Some \<lparr>status = 401, body = JNull\<rparr>\<rparr>"
      "\<lparr>user = None, token = Some ''t'', loading = False, storage = Some ''t'',
         pathname = ''/admin'', trace = []\<rparr>"
      "[\<lparr>response = Some \<lparr>status = 401, body = JNull\<rparr>\<rparr>, \<lparr>response = None\<rparr>]"]
  show ?thesis by simp
qed

text \<open>
  Two requests that both end with 401 make the interceptor remove the token twice and
  ask for \<^verbatim>\<open>/login\<close> twice, not once overall.
\<close>

theorem unauthorized_twice_counterexample:
  "removals (responses_rejected
        \<lparr>user = None, token = Some ''t'', loading = False, storage = Some ''t'',
         pathname = ''/admin'', trace = []\<rparr>
        [\<lparr>response = Some \<lparr>status = 401, body = JNull\<rparr>\<rparr>,
         \<lparr>response = Some \<lparr>status = 401, body = JNull\<rparr>\<rparr>]) = 2
   \<and> redirects (responses_rejected
        \<lparr>user = None, token = Some ''t'', loading = False, storage = Some ''t'',
         pathname = ''/admin'', trace = []\<rparr>
        [\<lparr>response = Some \<lparr>status = 401, body = JNull\<rparr>\<rparr>,
         \<lparr>response = Some \<lparr>status = 401, body = JNull\<rparr>\<rparr>]) = [''/login'', ''/login'']"
  by (simp add: response_rejected_def is_401_def removals_def redirects_def Let_def)

subsection \<open>Error messages\<close>

lemma msg_or_text_msg:
  "field d ''msg'' = Some (JStr m) \<Longrightarrow> m \<noteq> [] \<Longrightarrow> msg_or_text stringify d = Inr (JStr m)"
  by (cases d) (simp_all add: msg_or_text_def)

lemma msg_or_text_message:
  "\<not> truthy_json (field d ''msg'') \<Longrightarrow> field d ''message'' = Some (JStr m) \<Longrightarrow> m \<noteq> [] \<Longrightarrow>
     msg_or_text stringify d = Inr (JStr m)"
  by (cases d) (simp_all add: msg_or_text_def)

lemma map_throwing_messages:
  assumes "\<forall>d \<in> set ds.
             (field d ''msg'' = Some (JStr (f d))
              \<or> (\<not> truthy_json (field d ''msg'') \<and> field d ''message'' = Some (JStr (f d))))
             \<and> f d \<noteq> []"
  shows "map_throwing (msg_or_text stringify) ds = Inr (map (\<lambda>d. JStr (f d)) ds)"
  using assms
proof (induction ds)
  case Nil
  show ?case by simp
next
  case (Cons d ds)
  have "msg_or_text stringify d = Inr (JStr (f d))"
    using Cons.prems msg_or_text_msg msg_or_text_message by (metis list.set_intros(1))
  moreover have "map_throwing (msg_or_text stringify) ds = Inr (map (\<lambda>d. JStr (f d)) ds)"
    using Cons by simp
  ultimately show ?case by simp
qed

lemma join_entries_strings:
  "join_entries num_str (map (\<lambda>d. JStr (f d)) ds) = Inr (map f ds)"
  by (induction ds) simp_all

text \<open>
  Claim C7, with the object branch and the falsy details stated. \<open>parseErrorMessage\<close>
  returns the detail when it is a non-empty string; for a list of validation entries,
  each with a non-empty string under \<^verbatim>\<open>msg\<close> (or, failing that, under \<^verbatim>\<open>message\<close>),
  these strings joined by a comma and a space; for a detail that is a single object, its
  \<^verbatim>\<open>msg\<close>, else its \<^verbatim>\<open>message\<close>, else its JSON text; and the default message when the
  detail is absent, \<^verbatim>\<open>null\<close>, the empty string, a boolean or a number.
\<close>

theorem parseErrorMessage_preference:
  "(error_detail e1 = Some (JStr m) \<and> m \<noteq> [] \<longrightarrow>
      parseErrorMessage stringify num_str e1 dm = Inr (JStr m))
   \<and> (error_detail e2 = Some (JArr ds)
       \<and> (\<forall>d \<in> set ds.
             (field d ''msg'' = Some (JStr (f d))
              \<or> (\<not> truthy_json (field d ''msg'') \<and> field d ''message'' = Some (JStr (f d))))
             \<and> f d \<noteq> []) \<longrightarrow>
      parseErrorMessage stringify num_str e2 dm = Inr (JStr (join '', '' (map f ds))))
   \<and> (error_detail e3 = Some (JObj kvs) \<longrightarrow>
      parseErrorMessage stringify num_str e3 dm =
        Inr (if truthy_json (map_of kvs ''msg'') then the (map_of kvs ''msg'')
             else if truthy_json (map_of kvs ''message'') then the (map_of kvs ''message'')
             else JStr (stringify (JObj kvs))))
   \<and> (error_detail e4 \<in> {None, Some JNull, Some (JStr []), Some (JBool b), Some (JNum n)} \<longrightarrow>
      parseErrorMessage stringify num_str e4 dm =
        Inr (JStr (case dm of None \<Rightarrow> ''Server error'' | Some d \<Rightarrow> d)))"
proof -
  have p1: "error_detail e1 = Some (JStr m) \<and> m \<noteq> [] \<longrightarrow>
      parseErrorMessage stringify num_str e1 dm = Inr (JStr m)"
    by (simp add: parseErrorMessage_def)
  have p2: "error_detail e2 = Some (JArr ds)
       \<and> (\<forall>d \<in> set ds.
             (field d ''msg'' = Some (JStr (f d))
              \<or> (\<not> truthy_json (field d ''msg'') \<and> field d ''message'' = Some (JStr (f d))))
             \<and> f d \<noteq> []) \<longrightarrow>
      parseErrorMessage stringify num_str e2 dm = Inr (JStr (join '', '' (map f ds)))"
  proof (intro impI, elim conjE)
    assume d: "error_detail e2 = Some (JArr ds)"
      and a: "\<forall>d \<in> set ds.
             (field d ''msg'' = Some (JStr (f d))
              \<or> (\<not> truthy_json (field d ''msg'') \<and> field d ''message'' = Some (JStr (f d))))
             \<and> f d \<noteq> []"
    have "map_throwing (msg_or_text stringify) ds = Inr (map (\<lambda>d. JStr (f d)) ds)"
      using a by (rule map_throwing_messages)
    then show "parseErrorMessage stringify num_str e2 dm = Inr (JStr (join '', '' (map f ds)))"
      using d by (simp add: parseErrorMessage_def join_entries_strings)
  qed
  have p3: "error_detail e3 = Some (JObj kvs) \<longrightarrow>
      parseErrorMessage stringify num_str e3 dm =
        Inr (if truthy_json (map_of kvs ''msg'') then the (map_of kvs ''msg'')
             else if truthy_json (map_of kvs ''message'') then the (map_of kvs ''message'')
             else JStr (stringify (JObj kvs)))"
    by (simp add: parseErrorMessage_def msg_or_text_def)
  have p4: "error_detail e4 \<in> {None, Some JNull, Some (JStr []), Some (JBool b), Some (JNum n)} \<longrightarrow>
      parseErrorMessage stringify num_str e4 dm =
        Inr (JStr (case dm of None \<Rightarrow> ''Server error'' | Some d \<Rightarrow> d))"
    by (auto simp: parseErrorMessage_def Let_def)
  from p1 p2 p3 p4 show ?thesis by blast
qed

theorem parseErrorMessage_preference_witness:
  "parseErrorMessage (\<lambda>j. ''{}'') (\<lambda>n. ''0'')
      \<lparr>response = Some \<lparr>status = 400, body = JObj [(''detail'', JStr ''Email taken'')]\<rparr>\<rparr> None
     = Inr (JStr ''Email taken'')
   \<and> parseErrorMessage (\<lambda>j. ''{}'') (\<lambda>n. ''0'')
      \<lparr>response = Some \<lparr>status = 422, body = JObj [(''detail'',
         JArr [JObj [(''loc'', JStr ''email''), (''msg'', JStr ''invalid email'')],
               JObj [(''message'', JStr ''too short'')]])]\<rparr>\<rparr> None
     = Inr (JStr ''invalid email, too short'')
   \<and> parseErrorMessage (\<lambda>j. ''{}'') (\<lambda>n. ''0'')
      \<lparr>response = Some \<lparr>status = 400, body = JObj [(''detail'', JObj [(''code'', JNum 7)])]\<rparr>\<rparr> None
     = Inr (JStr ''{}'')
   \<and> parseErrorMessage (\<lambda>j. ''{}'') (\<lambda>n. ''0'') \<lparr>response = None\<rparr> None
     = Inr (JStr ''Server error'')"
proof -
  let ?e1 = "\<lparr>response = Some \<lparr>status = 400, body = JObj [(''detail'', JStr ''Email taken'')]\<rparr>\<rparr>"
  let ?ds = "[JObj [(''loc'', JStr ''email''), (''msg'', JStr ''invalid email'')],
              JObj [(''message'', JStr ''too short'')]]"
  let ?e2 = "\<lparr>response = Some \<lparr>status = 422, body = JObj [(''detail'', JArr ?ds)]\<rparr>\<rparr>"
  let ?e3 = "\<lparr>response = Some \<lparr>status = 400, body = JObj [(''detail'', JObj [(''code'', JNum 7)])]\<rparr>\<rparr>"
  let ?e4 = "\<lparr>response = None\<rparr>"
  let ?f = "\<lambda>d. case field d ''msg'' of Some (JStr s) \<Rightarrow> s
                      | _ \<Rightarrow> (case field d ''message'' of Some (JStr s) \<Rightarrow> s | _ \<Rightarrow> [])"
  have h1: "error_detail ?e1 = Some (JStr ''Email taken'') \<and> ''Email taken'' \<noteq> []"
    by (simp add: error_detail_def)
  have h2: "error_detail ?e2 = Some (JArr ?ds)
       \<and> (\<forall>d \<in> set ?ds.
             (field d ''msg'' = Some (JStr (?f d))
              \<or> (\<not> truthy_json (field d ''msg'') \<and> field d ''message'' = Some (JStr (?f d))))
             \<and> ?f d \<noteq> [])"
    by (simp add: error_detail_def)
  have h3: "error_detail ?e3 = Some (JObj [(''code'', JNum 7)])"
    by (simp add: error_detail_def)
  have h4: "error_detail ?e4 \<in> {None, Some JNull, Some (JStr []), Some (JBool True), Some (JNum 0)}"
    by (simp add: error_detail_def)
  have j: "join '', '' (map ?f ?ds) = ''invalid email, too short''" by simp
  from h1 h2 h3 h4 j
    parseErrorMessage_preference [of ?e1 "''Email taken''" "\<lambda>j. ''{}''" "\<lambda>n. ''0''" None
       ?e2 ?ds ?f ?e3 "[(''code'', JNum 7)]" ?e4 True 0]
  show ?thesis by simp
qed

text \<open>
  A detail that is neither a string nor a list does not always give the default
  message: an object with a \<^verbatim>\<open>msg\<close> gives that message.
\<close>

theorem parseErrorMessage_object_counterexample:
  "parseErrorMessage (\<lambda>j. ''{}'') (\<lambda>n. ''0'')
      \<lparr>response = Some \<lparr>status = 400,
          body = JObj [(''detail'', JObj [(''msg'', JStr ''Slot already booked'')])]\<rparr>\<rparr> None
     = Inr (JStr ''Slot already booked'')
   \<and> parseErrorMessage (\<lambda>j. ''{}'') (\<lambda>n. ''0'')
      \<lparr>response = Some \<lparr>status = 400,
          body = JObj [(''detail'', JObj [(''msg'', JStr ''Slot already booked'')])]\<rparr>\<rparr> None
     \<noteq> Inr (JStr (parseErrorMessage_spec DetailOther ''Server error''))"
  by (simp add: parseErrorMessage_def error_detail_def msg_or_text_def parseErrorMessage_spec_def)

text \<open>
  An entry of the list whose \<^verbatim>\<open>msg\<close> is an object with a key \<^verbatim>\<open>toString\<close> cannot be
  printed by \<^verbatim>\<open>join\<close>: the call throws.
\<close>

lemma parseErrorMessage_unprintable_entry:
  "parseErrorMessage (\<lambda>j. ''{}'') (\<lambda>n. ''0'')
      \<lparr>response = Some \<lparr>status = 422,
          body = JObj [(''detail'', JArr [JObj [(''msg'', JObj [(''toString'', JNum 1)])]])]\<rparr>\<rparr>
      None
     = Inl TypeError"
  by (simp add: parseErrorMessage_def error_detail_def msg_or_text_def)

end
